theory Spec2Isabelle
  imports Main "HOL-Library.Word"
begin

section \<open>The text area input controller (textAreaInput.ts)\<close>

text \<open>
  The controller listens to the events of a hidden textarea and turns them into
  editor events (type, paste, cut, composition, selection change request).
  Every listener runs to completion, so a listener is a function from the
  controller's fields before the event to the fields after it, together with the
  list of events it fired, in firing order.

  JavaScript strings are sequences of UTF-16 code units, numbers that hold
  offsets and millisecond clock readings are integers.  \<open>Date.now()\<close> is an
  argument \<open>now\<close> of each listener (one reading per listener run).
\<close>

type_synonym jsstring = "16 word list"

subsection \<open>Data\<close>

record Position =
  lineNumber :: int
  column :: int

record Selection =
  selectionStartLineNumber :: int
  selectionStartColumn :: int
  positionLineNumber :: int
  positionColumn :: int

text \<open>
  \<open>ITypeData\<close> (\<open>typeText\<close> is its field \<open>text\<close>) and the enum
  \<open>ReadFromTextArea\<close>.  \<open>IPasteData\<close> and \<open>ICompositionData\<close> hold one string each and
  are represented by that string.
\<close>

record ITypeData =
  typeText :: jsstring
  replaceCharCnt :: int

datatype ReadFromTextArea = Type | Paste

text \<open>
  The fields of a \<open>TextAreaState\<close> that the controller reads
  (\<open>stateValue\<close> is the field \<open>value\<close>).
\<close>

record TextAreaState =
  stateValue :: jsstring
  selectionStart :: int
  selectionEnd :: int
  selectionStartPosition :: "Position option"
  selectionEndPosition :: "Position option"

text \<open>
  Platform facts (\<open>browser.*\<close>, \<open>platform.*\<close>, \<open>window.parent !== window\<close>), the
  exported \<open>CopyOptions.forceCopyWithSyntaxHighlighting\<close>, and the two operations
  of \<open>TextAreaState\<close> that the controller calls but whose results the
  specification gives only in outline; these two are parameters.
\<close>

record Env =
  isEdgeOrIE :: bool
  isEdge :: bool
  isChrome :: bool
  isChromev56 :: bool
  isFirefox :: bool
  isMacintosh :: bool
  isWindows :: bool
  windowParentIsNotWindow :: bool
  forceCopyWithSyntaxHighlighting :: bool
  deduceEditorPosition :: "TextAreaState \<Rightarrow> int \<Rightarrow> Position \<times> int \<times> int"
  readAnchors :: "TextAreaState \<Rightarrow> jsstring \<Rightarrow> int \<Rightarrow> int \<Rightarrow> Position option \<times> Position option"

text \<open>\<open>ITextAreaInputHost\<close>: the host at the moment a listener runs.\<close>

record Host =
  getPlainTextToCopy :: jsstring
  getHTMLToCopy :: jsstring
  getScreenReaderContent :: "TextAreaState \<Rightarrow> TextAreaState"
  deduceModelPosition :: "Position \<Rightarrow> int \<Rightarrow> int \<Rightarrow> Position"

datatype HostCall = CallGetPlainTextToCopy | CallGetHTMLToCopy

text \<open>
  \<open>TextAreaWrapper\<close>: its own field \<open>_ignoreSelectionChangeTime\<close> and what it
  reads and writes of the DOM textarea: the value, the selection range, whether
  the textarea is \<open>document.activeElement\<close>, and whether \<open>focus()\<close> and
  \<open>setSelectionRange\<close> throw (the textarea is off-DOM).
\<close>

record TextAreaWrapper =
  ignoreSelectionChangeTime :: int
  domValue :: jsstring
  domSelectionStart :: int
  domSelectionEnd :: int
  domIsActiveElement :: bool
  domSelectionThrows :: bool

text \<open>
  A clipboard \<open>DataTransfer\<close> maps a format to the data stored under it;
  \<open>e.clipboardData\<close> and \<open>window.clipboardData\<close> may be absent.
\<close>

type_synonym DataTransfer = "string \<rightharpoonup> jsstring"

record ClipboardEvent =
  clipboardData :: "DataTransfer option"
  defaultPrevented :: bool

record Window =
  windowClipboardData :: "DataTransfer option"

record CompositionEvent =
  compositionData :: jsstring
  compositionLocale :: string

datatype KeyCode = KEY_IN_COMPOSITION | Escape | OtherKey nat

text \<open>
  \<open>IKeyboardEvent\<close>: \<open>equalsEscape\<close> is the result of \<open>e.equals(KeyCode.Escape)\<close>.
\<close>

record KeyboardEvent =
  keyCode :: KeyCode
  equalsEscape :: bool
  propagationStopped :: bool
  keyDefaultPrevented :: bool

datatype error = Error string

text \<open>The emitters of the controller; an emitted event is a constructor with its payload.\<close>

datatype event =
    OnFocus
  | OnBlur
  | OnKeyDown KeyboardEvent
  | OnKeyUp KeyboardEvent
  | OnCut
  | OnPaste jsstring
  | OnType ITypeData
  | OnCompositionStart
  | OnCompositionUpdate jsstring
  | OnCompositionEnd
  | OnSelectionChangeRequest Selection

text \<open>
  The private fields of \<open>TextAreaInput\<close>, the closure variable
  \<open>previousSelectionChangeEventTime\<close> of the \<open>selectionchange\<close> listener, and
  whether the run-once scheduler \<open>_asyncTriggerCut\<close> is armed.
\<close>

record TextAreaInput =
  textArea :: TextAreaWrapper
  textAreaState :: TextAreaState
  hasFocus :: bool
  isDoingComposition :: bool
  nextCommand :: ReadFromTextArea
  previousSelectionChangeEventTime :: int
  asyncTriggerCutScheduled :: bool

subsection \<open>TextAreaWrapper\<close>

definition setIgnoreSelectionChangeTime :: "int \<Rightarrow> TextAreaWrapper \<Rightarrow> TextAreaWrapper" where
  "setIgnoreSelectionChangeTime now w = w\<lparr>ignoreSelectionChangeTime := now\<rparr>"

definition getIgnoreSelectionChangeTime :: "TextAreaWrapper \<Rightarrow> int" where
  "getIgnoreSelectionChangeTime w = ignoreSelectionChangeTime w"

definition resetSelectionChangeTime :: "TextAreaWrapper \<Rightarrow> TextAreaWrapper" where
  "resetSelectionChangeTime w = w\<lparr>ignoreSelectionChangeTime := 0\<rparr>"

definition getValue :: "TextAreaWrapper \<Rightarrow> jsstring" where
  "getValue w = domValue w"

definition setValue :: "int \<Rightarrow> jsstring \<Rightarrow> TextAreaWrapper \<Rightarrow> TextAreaWrapper" where
  "setValue now v w =
     (if domValue w = v then w
      else (setIgnoreSelectionChangeTime now w)\<lparr>domValue := v\<rparr>)"

definition getSelectionStart :: "TextAreaWrapper \<Rightarrow> int" where
  "getSelectionStart w = domSelectionStart w"

definition getSelectionEnd :: "TextAreaWrapper \<Rightarrow> int" where
  "getSelectionEnd w = domSelectionEnd w"

text \<open>The DOM calls \<open>textArea.focus()\<close> and \<open>textArea.setSelectionRange(a, b)\<close>.\<close>

definition domFocus :: "TextAreaWrapper \<Rightarrow> TextAreaWrapper" where
  "domFocus w = w\<lparr>domIsActiveElement := True\<rparr>"

definition domSetSelectionRange :: "int \<Rightarrow> int \<Rightarrow> TextAreaWrapper \<Rightarrow> TextAreaWrapper" where
  "domSetSelectionRange a b w = w\<lparr>domSelectionStart := a, domSelectionEnd := b\<rparr>"

text \<open>
  \<open>setSelectionRange\<close>.  In the last branch the calls are inside \<open>try\<close>: when the
  DOM throws, the exception is discarded and only the timestamp written before it
  remains.  The scroll positions saved and restored there are not part of the
  state.
\<close>

definition setSelectionRange :: "Env \<Rightarrow> int \<Rightarrow> int \<Rightarrow> int \<Rightarrow> TextAreaWrapper \<Rightarrow> TextAreaWrapper" where
  "setSelectionRange env now selStart selEnd w =
     (let currentIsFocused = domIsActiveElement w;
          currentSelectionStart = domSelectionStart w;
          currentSelectionEnd = domSelectionEnd w
      in if currentIsFocused \<and> currentSelectionStart = selStart \<and> currentSelectionEnd = selEnd
         then (if isFirefox env \<and> windowParentIsNotWindow env then domFocus w else w)
         else if currentIsFocused
         then (let w1 = domSetSelectionRange selStart selEnd (setIgnoreSelectionChangeTime now w)
               in if isFirefox env \<and> windowParentIsNotWindow env then domFocus w1 else w1)
         else (let w1 = setIgnoreSelectionChangeTime now w
               in if domSelectionThrows w1 then w1
                  else domSetSelectionRange selStart selEnd (domFocus w1)))"

subsection \<open>ClipboardEventUtils\<close>

definition canUseTextData :: "Window \<Rightarrow> ClipboardEvent \<Rightarrow> bool" where
  "canUseTextData win e =
     (if clipboardData e \<noteq> None then True
      else if windowClipboardData win \<noteq> None then True
      else False)"

text \<open>\<open>getData(format)\<close> of a \<open>DataTransfer\<close>: the empty string when nothing is stored.\<close>

definition getData :: "DataTransfer \<Rightarrow> string \<Rightarrow> jsstring" where
  "getData d fmt = (case d fmt of None \<Rightarrow> [] | Some t \<Rightarrow> t)"

definition setData :: "DataTransfer \<Rightarrow> string \<Rightarrow> jsstring \<Rightarrow> DataTransfer" where
  "setData d fmt t = d(fmt \<mapsto> t)"

definition preventDefault :: "ClipboardEvent \<Rightarrow> ClipboardEvent" where
  "preventDefault e = e\<lparr>defaultPrevented := True\<rparr>"

definition getTextData :: "Window \<Rightarrow> ClipboardEvent \<Rightarrow> error + (jsstring \<times> ClipboardEvent)" where
  "getTextData win e =
     (case clipboardData e of
        Some d \<Rightarrow> Inr (getData d ''text/plain'', preventDefault e)
      | None \<Rightarrow>
         (case windowClipboardData win of
            Some d \<Rightarrow> Inr (getData d ''Text'', preventDefault e)
          | None \<Rightarrow> Inl (Error ''ClipboardEventUtils.getTextData: Cannot use text data!'')))"

text \<open>\<open>richText\<close> is \<open>None\<close> for \<open>null\<close>.\<close>

definition setTextData ::
  "Window \<Rightarrow> ClipboardEvent \<Rightarrow> jsstring \<Rightarrow> jsstring option \<Rightarrow> error + (ClipboardEvent \<times> Window)" where
  "setTextData win e txt richText =
     (case clipboardData e of
        Some d \<Rightarrow>
          (let d1 = setData d ''text/plain'' txt;
               d2 = (case richText of None \<Rightarrow> d1 | Some html \<Rightarrow> setData d1 ''text/html'' html)
           in Inr (preventDefault (e\<lparr>clipboardData := Some d2\<rparr>), win))
      | None \<Rightarrow>
         (case windowClipboardData win of
            Some d \<Rightarrow>
              Inr (preventDefault e, win\<lparr>windowClipboardData := Some (setData d ''Text'' txt)\<rparr>)
          | None \<Rightarrow> Inl (Error ''ClipboardEventUtils.setTextData: Cannot use text data!'')))"

subsection \<open>TextAreaState (textAreaState.ts)\<close>

text \<open>
  Modelled from the spec: the file textAreaState.ts, which defines the class
  \<open>TextAreaState\<close>, is not among the sources.  Its constant \<open>EMPTY\<close> and its functions
  \<open>selectedText\<close>, \<open>collapseSelection\<close>, \<open>readFromTextArea\<close>, \<open>writeToTextArea\<close> and
  \<open>deduceInput\<close> follow section 4.1 and section 3 of the specification.
\<close>

text \<open>Modelled from the spec: \<open>EMPTY\<close> has the value \<open>""\<close>, selection \<open>0..0\<close> and no anchors.\<close>

definition EMPTY :: TextAreaState where
  "EMPTY = \<lparr>stateValue = [], selectionStart = 0, selectionEnd = 0,
            selectionStartPosition = None, selectionEndPosition = None\<rparr>"

text \<open>
  Modelled from the spec: \<open>selectedText(text)\<close> is missing; the full value equals
  \<open>text\<close> and the entire value is selected, with no anchors known.
\<close>

definition selectedText :: "jsstring \<Rightarrow> TextAreaState" where
  "selectedText t = \<lparr>stateValue = t, selectionStart = 0, selectionEnd = int (length t),
                      selectionStartPosition = None, selectionEndPosition = None\<rparr>"

text \<open>
  Modelled from the spec: \<open>collapseSelection()\<close> is missing; the selection start
  becomes the selection end.  The specification says nothing else changes.
\<close>

definition collapseSelection :: "TextAreaState \<Rightarrow> TextAreaState" where
  "collapseSelection st = st\<lparr>selectionStart := selectionEnd st\<rparr>"

text \<open>
  Modelled from the spec: \<open>readFromTextArea(textArea)\<close> is missing; it reads the
  value and the selection from the wrapper.  Whether the anchors of the previous
  state are recomputed or cleared is the parameter \<open>readAnchors\<close>.
\<close>

definition readFromTextArea :: "Env \<Rightarrow> TextAreaState \<Rightarrow> TextAreaWrapper \<Rightarrow> TextAreaState" where
  "readFromTextArea env prev w =
     \<lparr>stateValue = getValue w,
      selectionStart = getSelectionStart w,
      selectionEnd = getSelectionEnd w,
      selectionStartPosition =
        fst (readAnchors env prev (getValue w) (getSelectionStart w) (getSelectionEnd w)),
      selectionEndPosition =
        snd (readAnchors env prev (getValue w) (getSelectionStart w) (getSelectionEnd w))\<rparr>"

text \<open>
  Modelled from the spec: \<open>writeToTextArea(reason, textArea, select)\<close> is missing; it
  writes the value through \<open>setValue\<close> (which skips an equal value) and writes the
  selection exactly when \<open>select\<close> holds.
\<close>

definition writeToTextArea :: "Env \<Rightarrow> int \<Rightarrow> TextAreaState \<Rightarrow> TextAreaWrapper \<Rightarrow> bool \<Rightarrow> TextAreaWrapper" where
  "writeToTextArea env now st w select =
     (let w1 = setValue now (stateValue st) w
      in if select then setSelectionRange env now (selectionStart st) (selectionEnd st) w1
         else w1)"

text \<open>
  Modelled from the spec: \<open>strings.commonPrefixLength\<close> and
  \<open>strings.commonSuffixLength\<close> (vs/base/common/strings) are missing; they are the
  lengths of the longest common prefix and of the longest common suffix.
\<close>

fun commonPrefixLength :: "jsstring \<Rightarrow> jsstring \<Rightarrow> nat" where
  "commonPrefixLength (x # xs) (y # ys) = (if x = y then Suc (commonPrefixLength xs ys) else 0)"
| "commonPrefixLength _ _ = 0"

definition commonSuffixLength :: "jsstring \<Rightarrow> jsstring \<Rightarrow> nat" where
  "commonSuffixLength a b = commonPrefixLength (rev a) (rev b)"

text \<open>
  Modelled from the spec: \<open>deduceInput(oldState, newState, couldBeEmojiInput)\<close> is
  missing.  The prefix length \<open>p\<close> and the suffix length \<open>s\<close> are found independently
  and the suffix is clamped so that the two regions do not overlap; the inserted
  text lies between them in the new value; with an empty inserted text and equal
  selections the result is the no-op.  The suppression of a lone high surrogate
  is done by the \<open>input\<close> listener itself, so the flag does not change the result
  here.
\<close>

definition deduceInput :: "TextAreaState \<Rightarrow> TextAreaState \<Rightarrow> bool \<Rightarrow> ITypeData" where
  "deduceInput oldState newState couldBeEmojiInput =
     (let ov = stateValue oldState;
          nv = stateValue newState;
          p = commonPrefixLength ov nv;
          s = min (commonSuffixLength ov nv) (min (length ov) (length nv) - p);
          inserted = take (length nv - s - p) (drop p nv)
      in if inserted = [] \<and> selectionStart oldState = selectionStart newState
            \<and> selectionEnd oldState = selectionEnd newState
         then \<lparr>typeText = [], replaceCharCnt = 0\<rparr>
         else \<lparr>typeText = inserted, replaceCharCnt = int (length ov) - int p - int s\<rparr>)"

text \<open>JavaScript's \<open>charCodeAt\<close>: \<open>None\<close> stands for NaN, the result outside the string.\<close>

definition charCodeAt :: "jsstring \<Rightarrow> nat \<Rightarrow> int option" where
  "charCodeAt t i = (if i < length t then Some (uint (t ! i)) else None)"

text \<open>
  Modelled from the spec: \<open>strings.isHighSurrogate\<close> (vs/base/common/strings) is
  missing; a high surrogate is a code unit from \<open>0xD800\<close> to \<open>0xDBFF\<close>.  A
  comparison with NaN is false.
\<close>

definition isHighSurrogate :: "int option \<Rightarrow> bool" where
  "isHighSurrogate c = (case c of None \<Rightarrow> False | Some n \<Rightarrow> 0xD800 \<le> n \<and> n \<le> 0xDBFF)"

subsection \<open>TextAreaInput: private methods\<close>

definition setAndWriteTextAreaState :: "Env \<Rightarrow> int \<Rightarrow> TextAreaState \<Rightarrow> TextAreaInput \<Rightarrow> TextAreaInput" where
  "setAndWriteTextAreaState env now st s =
     (let st1 = (if \<not> hasFocus s then collapseSelection st else st)
      in s\<lparr>textArea := writeToTextArea env now st1 (textArea s) (hasFocus s),
           textAreaState := st1\<rparr>)"

definition writeScreenReaderContent :: "Env \<Rightarrow> Host \<Rightarrow> int \<Rightarrow> TextAreaInput \<Rightarrow> TextAreaInput" where
  "writeScreenReaderContent env host now s =
     (if isDoingComposition s then s
      else setAndWriteTextAreaState env now (getScreenReaderContent host (textAreaState s)) s)"

definition setHasFocus :: "Env \<Rightarrow> Host \<Rightarrow> int \<Rightarrow> bool \<Rightarrow> TextAreaInput \<Rightarrow> TextAreaInput \<times> event list" where
  "setHasFocus env host now newHasFocus s =
     (if hasFocus s = newHasFocus then (s, [])
      else
        (let s1 = s\<lparr>hasFocus := newHasFocus\<rparr>;
             s2 = (if hasFocus s1
                   then (if isEdge env then setAndWriteTextAreaState env now EMPTY s1
                         else writeScreenReaderContent env host now s1)
                   else s1)
         in (s2, if hasFocus s2 then [OnFocus] else [OnBlur])))"

definition focusTextArea :: "Env \<Rightarrow> Host \<Rightarrow> int \<Rightarrow> TextAreaInput \<Rightarrow> TextAreaInput \<times> event list" where
  "focusTextArea env host now s = setHasFocus env host now True s"

definition isFocused :: "TextAreaInput \<Rightarrow> bool" where
  "isFocused s = hasFocus s"

text \<open>
  \<open>_ensureClipboardGetsEditorSelection\<close>.  The result holds the controller, the
  clipboard event, the window and the calls made to the host, in order.
\<close>

definition ensureClipboardGetsEditorSelection ::
  "Env \<Rightarrow> Host \<Rightarrow> int \<Rightarrow> Window \<Rightarrow> ClipboardEvent \<Rightarrow> TextAreaInput
     \<Rightarrow> error + (TextAreaInput \<times> ClipboardEvent \<times> Window \<times> HostCall list)" where
  "ensureClipboardGetsEditorSelection env host now win e s =
     (let copyPlainText = getPlainTextToCopy host
      in if \<not> canUseTextData win e
         then Inr (setAndWriteTextAreaState env now (selectedText copyPlainText) s, e, win,
                   [CallGetPlainTextToCopy])
         else
           (let request = (\<not> isEdgeOrIE env
                            \<and> (int (length copyPlainText) < 65536 \<or> forceCopyWithSyntaxHighlighting env));
                copyHTML = (if request then Some (getHTMLToCopy host) else None);
                calls = (if request then [CallGetPlainTextToCopy, CallGetHTMLToCopy]
                         else [CallGetPlainTextToCopy])
            in case setTextData win e copyPlainText copyHTML of
                 Inl err \<Rightarrow> Inl err
               | Inr (e1, win1) \<Rightarrow> Inr (s, e1, win1, calls)))"

subsection \<open>TextAreaInput: the listeners registered by the constructor\<close>

definition keydownListener :: "KeyboardEvent \<Rightarrow> TextAreaInput \<Rightarrow> TextAreaInput \<times> event list" where
  "keydownListener e s =
     (let e1 = (if isDoingComposition s \<and> keyCode e = KEY_IN_COMPOSITION
                then e\<lparr>propagationStopped := True\<rparr> else e);
          e2 = (if equalsEscape e1 then e1\<lparr>keyDefaultPrevented := True\<rparr> else e1)
      in (s, [OnKeyDown e2]))"

definition keyupListener :: "KeyboardEvent \<Rightarrow> TextAreaInput \<Rightarrow> TextAreaInput \<times> event list" where
  "keyupListener e s = (s, [OnKeyUp e])"

definition compositionstartListener :: "Env \<Rightarrow> int \<Rightarrow> TextAreaInput \<Rightarrow> TextAreaInput \<times> event list" where
  "compositionstartListener env now s =
     (if isDoingComposition s then (s, [])
      else
        (let s1 = s\<lparr>isDoingComposition := True\<rparr>;
             s2 = (if \<not> isEdgeOrIE env then setAndWriteTextAreaState env now EMPTY s1 else s1)
         in (s2, [OnCompositionStart])))"

text \<open>The two local functions of the constructor.\<close>

definition deduceInputFromTextAreaValue :: "Env \<Rightarrow> TextAreaInput \<Rightarrow> bool \<Rightarrow> TextAreaState \<times> ITypeData" where
  "deduceInputFromTextAreaValue env s couldBeEmojiInput =
     (let oldState = textAreaState s;
          newState = readFromTextArea env (textAreaState s) (textArea s)
      in (newState, deduceInput oldState newState couldBeEmojiInput))"

definition deduceComposition :: "TextAreaInput \<Rightarrow> jsstring \<Rightarrow> TextAreaState \<times> ITypeData" where
  "deduceComposition s t =
     (let oldState = textAreaState s;
          newState = selectedText t;
          typeInput = \<lparr>typeText = stateValue newState,
                       replaceCharCnt = selectionEnd oldState - selectionStart oldState\<rparr>
      in (newState, typeInput))"

definition compositionupdateListener :: "Env \<Rightarrow> CompositionEvent \<Rightarrow> TextAreaInput \<Rightarrow> TextAreaInput \<times> event list" where
  "compositionupdateListener env e s =
     (if isChromev56 env then (s, [])
      else if isEdgeOrIE env \<and> compositionLocale e = ''ja''
      then (let (newState, typeInput) = deduceInputFromTextAreaValue env s False
            in (s\<lparr>textAreaState := newState\<rparr>,
                [OnType typeInput, OnCompositionUpdate (compositionData e)]))
      else (let (newState, typeInput) = deduceComposition s (compositionData e)
            in (s\<lparr>textAreaState := newState\<rparr>,
                [OnType typeInput, OnCompositionUpdate (compositionData e)])))"

definition compositionendListener :: "Env \<Rightarrow> CompositionEvent \<Rightarrow> TextAreaInput \<Rightarrow> TextAreaInput \<times> event list" where
  "compositionendListener env e s =
     (let (newState, typeInput) =
            (if isEdgeOrIE env \<and> compositionLocale e = ''ja''
             then deduceInputFromTextAreaValue env s False
             else deduceComposition s (compositionData e));
          s1 = s\<lparr>textAreaState := newState\<rparr>;
          s2 = (if isEdgeOrIE env \<or> isChrome env
                then s1\<lparr>textAreaState := readFromTextArea env (textAreaState s1) (textArea s1)\<rparr>
                else s1)
      in if \<not> isDoingComposition s2 then (s2, [OnType typeInput])
         else (s2\<lparr>isDoingComposition := False\<rparr>, [OnType typeInput, OnCompositionEnd]))"

definition inputListener :: "Env \<Rightarrow> int \<Rightarrow> TextAreaInput \<Rightarrow> TextAreaInput \<times> event list" where
  "inputListener env now s =
     (let s1 = s\<lparr>textArea := setIgnoreSelectionChangeTime now (textArea s)\<rparr>
      in if isDoingComposition s1
         then (if isChromev56 env
               then (let (newState, typeInput) = deduceComposition s1 (getValue (textArea s1))
                     in (s1\<lparr>textAreaState := newState\<rparr>,
                         [OnType typeInput, OnCompositionUpdate (typeText typeInput)]))
               else (s1, []))
         else
           (let (newState, typeInput) = deduceInputFromTextAreaValue env s1 (isMacintosh env)
            in if replaceCharCnt typeInput = 0 \<and> int (length (typeText typeInput)) = 1
                  \<and> isHighSurrogate (charCodeAt (typeText typeInput) 0)
               then (s1, [])
               else
                 (let s2 = s1\<lparr>textAreaState := newState\<rparr>
                  in if nextCommand s2 = Type
                     then (s2, if typeText typeInput \<noteq> [] then [OnType typeInput] else [])
                     else (s2\<lparr>nextCommand := Type\<rparr>,
                           if typeText typeInput \<noteq> [] then [OnPaste (typeText typeInput)] else []))))"

text \<open>
  The clipboard listeners.  \<open>cut\<close> arms the scheduler \<open>_asyncTriggerCut\<close>, whose
  callback fires the cut event later (\<open>asyncTriggerCutFires\<close>).
\<close>

definition cutListener ::
  "Env \<Rightarrow> Host \<Rightarrow> int \<Rightarrow> Window \<Rightarrow> ClipboardEvent \<Rightarrow> TextAreaInput
     \<Rightarrow> error + (TextAreaInput \<times> ClipboardEvent \<times> Window \<times> HostCall list)" where
  "cutListener env host now win e s =
     (let s1 = s\<lparr>textArea := setIgnoreSelectionChangeTime now (textArea s)\<rparr>
      in case ensureClipboardGetsEditorSelection env host now win e s1 of
           Inl err \<Rightarrow> Inl err
         | Inr (s2, e1, win1, calls) \<Rightarrow>
             Inr (s2\<lparr>asyncTriggerCutScheduled := True\<rparr>, e1, win1, calls))"

definition asyncTriggerCutFires :: "TextAreaInput \<Rightarrow> TextAreaInput \<times> event list" where
  "asyncTriggerCutFires s =
     (if asyncTriggerCutScheduled s then (s\<lparr>asyncTriggerCutScheduled := False\<rparr>, [OnCut])
      else (s, []))"

definition copyListener ::
  "Env \<Rightarrow> Host \<Rightarrow> int \<Rightarrow> Window \<Rightarrow> ClipboardEvent \<Rightarrow> TextAreaInput
     \<Rightarrow> error + (TextAreaInput \<times> ClipboardEvent \<times> Window \<times> HostCall list)" where
  "copyListener env host now win e s = ensureClipboardGetsEditorSelection env host now win e s"

definition pasteListener ::
  "Env \<Rightarrow> int \<Rightarrow> Window \<Rightarrow> ClipboardEvent \<Rightarrow> TextAreaInput
     \<Rightarrow> error + (TextAreaInput \<times> ClipboardEvent \<times> event list)" where
  "pasteListener env now win e s =
     (let s1 = s\<lparr>textArea := setIgnoreSelectionChangeTime now (textArea s)\<rparr>
      in if canUseTextData win e
         then (case getTextData win e of
                 Inl err \<Rightarrow> Inl err
               | Inr (pastePlainText, e1) \<Rightarrow>
                   Inr (s1, e1, if pastePlainText \<noteq> [] then [OnPaste pastePlainText] else []))
         else
           (let s2 = (if getSelectionStart (textArea s1) \<noteq> getSelectionEnd (textArea s1)
                      then setAndWriteTextAreaState env now EMPTY s1 else s1)
            in Inr (s2\<lparr>nextCommand := Paste\<rparr>, e, [])))"

definition focusListener :: "Env \<Rightarrow> Host \<Rightarrow> int \<Rightarrow> TextAreaInput \<Rightarrow> TextAreaInput \<times> event list" where
  "focusListener env host now s = setHasFocus env host now True s"

definition blurListener :: "Env \<Rightarrow> Host \<Rightarrow> int \<Rightarrow> TextAreaInput \<Rightarrow> TextAreaInput \<times> event list" where
  "blurListener env host now s = setHasFocus env host now False s"

definition selectionchangeListener :: "Env \<Rightarrow> Host \<Rightarrow> int \<Rightarrow> TextAreaInput \<Rightarrow> TextAreaInput \<times> event list" where
  "selectionchangeListener env host now s =
     (if \<not> hasFocus s then (s, [])
      else if isDoingComposition s then (s, [])
      else if \<not> isChrome env \<or> \<not> isWindows env then (s, [])
      else
        (let delta1 = now - previousSelectionChangeEventTime s;
             s1 = s\<lparr>previousSelectionChangeEventTime := now\<rparr>
         in if delta1 < 5 then (s1, [])
            else
              (let delta2 = now - getIgnoreSelectionChangeTime (textArea s1);
                   s2 = s1\<lparr>textArea := resetSelectionChangeTime (textArea s1)\<rparr>
               in if delta2 < 100 then (s2, [])
                  else if selectionStartPosition (textAreaState s2) = None
                          \<or> selectionEndPosition (textAreaState s2) = None
                  then (s2, [])
                  else
                    (let newValue = getValue (textArea s2)
                     in if stateValue (textAreaState s2) \<noteq> newValue then (s2, [])
                        else
                          (let newSelectionStart = getSelectionStart (textArea s2);
                               newSelectionEnd = getSelectionEnd (textArea s2)
                           in if selectionStart (textAreaState s2) = newSelectionStart
                                 \<and> selectionEnd (textAreaState s2) = newSelectionEnd
                              then (s2, [])
                              else
                                (let (p1, d1, l1) = deduceEditorPosition env (textAreaState s2) newSelectionStart;
                                     newSelectionStartPosition = deduceModelPosition host p1 d1 l1;
                                     (p2, d2, l2) = deduceEditorPosition env (textAreaState s2) newSelectionEnd;
                                     newSelectionEndPosition = deduceModelPosition host p2 d2 l2;
                                     newSelection =
                                       \<lparr>selectionStartLineNumber = lineNumber newSelectionStartPosition,
                                        selectionStartColumn = column newSelectionStartPosition,
                                        positionLineNumber = lineNumber newSelectionEndPosition,
                                        positionColumn = column newSelectionEndPosition\<rparr>
                                 in (s2, [OnSelectionChangeRequest newSelection])))))))"

text \<open>
  The constructor: the wrapper starts with timestamp \<open>0\<close>, the state is \<open>EMPTY\<close>,
  the screen reader content is written while \<open>_hasFocus\<close> and
  \<open>_isDoingComposition\<close> are still unset (falsy), then the flags are initialised.
\<close>

definition ctor :: "Env \<Rightarrow> Host \<Rightarrow> int \<Rightarrow> TextAreaWrapper \<Rightarrow> TextAreaInput" where
  "ctor env host now w =
     (let s0 = \<lparr>textArea = w\<lparr>ignoreSelectionChangeTime := 0\<rparr>,
                textAreaState = EMPTY,
                hasFocus = False,
                isDoingComposition = False,
                nextCommand = Type,
                previousSelectionChangeEventTime = 0,
                asyncTriggerCutScheduled = False\<rparr>
      in writeScreenReaderContent env host now s0)"

subsection \<open>How far a selectionchange event gets\<close>

text \<open>
  The \<open>selectionchange\<close> listener returns early at a chain of tests.  An event
  reaches the burst filter (the comparison of \<open>delta1\<close>, line 339) when it passes
  the focus, composition and platform tests (lines 324 to 333); it reaches the
  comparison of \<open>delta2\<close> with the self-inflicted window (line 347) when it also
  passes the burst filter.
\<close>

definition reachesBurstFilter :: "Env \<Rightarrow> TextAreaInput \<Rightarrow> bool" where
  "reachesBurstFilter env s =
     (hasFocus s \<and> \<not> isDoingComposition s \<and> isChrome env \<and> isWindows env)"

definition reachesSelfInflictedCheck :: "Env \<Rightarrow> int \<Rightarrow> TextAreaInput \<Rightarrow> bool" where
  "reachesSelfInflictedCheck env now s =
     (reachesBurstFilter env s \<and> \<not> now - previousSelectionChangeEventTime s < 5)"

subsection \<open>Example platforms, host and controller states\<close>

definition chromeOnWindows :: Env where
  "chromeOnWindows =
     \<lparr>isEdgeOrIE = False, isEdge = False, isChrome = True, isChromev56 = False,
      isFirefox = False, isMacintosh = False, isWindows = True,
      windowParentIsNotWindow = False, forceCopyWithSyntaxHighlighting = False,
      deduceEditorPosition = (\<lambda>st off. (\<lparr>lineNumber = 1, column = 1\<rparr>, off, 0)),
      readAnchors = (\<lambda>prev v a b. (None, None))\<rparr>"

definition edgeOnWindows :: Env where
  "edgeOnWindows = chromeOnWindows\<lparr>isEdgeOrIE := True, isEdge := True, isChrome := False\<rparr>"

definition exampleHost :: Host where
  "exampleHost =
     \<lparr>getPlainTextToCopy = [0x61, 0x62],
      getHTMLToCopy = [0x3C, 0x62, 0x3E],
      getScreenReaderContent = (\<lambda>st. st),
      deduceModelPosition = (\<lambda>p d l. \<lparr>lineNumber = lineNumber p + l, column = column p + d\<rparr>)\<rparr>"

text \<open>A focused textarea holding \<open>"abc"\<close> with all of it selected.\<close>

definition exampleTextArea :: TextAreaWrapper where
  "exampleTextArea =
     \<lparr>ignoreSelectionChangeTime = 0, domValue = [0x61, 0x62, 0x63],
      domSelectionStart = 0, domSelectionEnd = 3,
      domIsActiveElement = True, domSelectionThrows = False\<rparr>"

text \<open>
  A focused, idle controller whose state holds \<open>"abc"\<close> with the caret after
  the first character and known anchors.
\<close>

definition exampleInput :: TextAreaInput where
  "exampleInput =
     \<lparr>textArea = exampleTextArea,
      textAreaState =
        \<lparr>stateValue = [0x61, 0x62, 0x63], selectionStart = 1, selectionEnd = 1,
         selectionStartPosition = Some \<lparr>lineNumber = 1, column = 2\<rparr>,
         selectionEndPosition = Some \<lparr>lineNumber = 1, column = 2\<rparr>\<rparr>,
      hasFocus = True, isDoingComposition = False, nextCommand = Type,
      previousSelectionChangeEventTime = 0, asyncTriggerCutScheduled = False\<rparr>"

text \<open>The same controller 50ms after it wrote to the textarea at time 950.\<close>

definition exampleInputJustWritten :: TextAreaInput where
  "exampleInputJustWritten =
     exampleInput\<lparr>textArea := exampleTextArea\<lparr>ignoreSelectionChangeTime := 950\<rparr>\<rparr>"

text \<open>
  The textarea after a lone high surrogate \<open>0xD83D\<close> arrived in the empty
  textarea, the stored state still being \<open>EMPTY\<close>.
\<close>

definition exampleLoneSurrogate :: TextAreaInput where
  "exampleLoneSurrogate =
     exampleInput\<lparr>textArea := exampleTextArea\<lparr>domValue := [0xD83D], domSelectionStart := 1,
                                                domSelectionEnd := 1\<rparr>,
                  textAreaState := EMPTY\<rparr>"

text \<open>The stored state holds \<open>"ab"\<close>, the textarea \<open>"abc"\<close> after the user typed \<open>c\<close>.\<close>

definition exampleTyped :: TextAreaInput where
  "exampleTyped =
     exampleInput\<lparr>textArea := exampleTextArea\<lparr>domSelectionStart := 3\<rparr>,
                  textAreaState := \<lparr>stateValue = [0x61, 0x62], selectionStart = 2, selectionEnd = 2,
                                     selectionStartPosition = None, selectionEndPosition = None\<rparr>\<rparr>"

text \<open>
  The example controller after a \<open>paste\<close> event at time 1000 that could not read
  the clipboard, and the same after the browser put the pasted text \<open>"pq"\<close>
  into the textarea.
\<close>

definition examplePastePending :: TextAreaInput where
  "examplePastePending =
     exampleInput\<lparr>textArea := \<lparr>ignoreSelectionChangeTime = 1000, domValue = [],
                                domSelectionStart = 0, domSelectionEnd = 0,
                                domIsActiveElement = True, domSelectionThrows = False\<rparr>,
                  textAreaState := EMPTY, nextCommand := Paste\<rparr>"

definition examplePasted :: TextAreaInput where
  "examplePasted =
     examplePastePending\<lparr>textArea := (textArea examplePastePending)
        \<lparr>domValue := [0x70, 0x71], domSelectionStart := 2, domSelectionEnd := 2\<rparr>\<rparr>"

definition exampleCompositionEvent :: CompositionEvent where
  "exampleCompositionEvent = \<lparr>compositionData = [0x61], compositionLocale = ''en''\<rparr>"

text \<open>
  Windows without and with the legacy \<open>window.clipboardData\<close>, and clipboard
  events without \<open>clipboardData\<close>, with one that holds nothing, and with one that
  holds the empty string as plain text.
\<close>

definition noClipboardWindow :: Window where
  "noClipboardWindow = \<lparr>windowClipboardData = None\<rparr>"

definition legacyClipboardWindow :: Window where
  "legacyClipboardWindow = \<lparr>windowClipboardData = Some Map.empty\<rparr>"

definition eventWithoutClipboard :: ClipboardEvent where
  "eventWithoutClipboard = \<lparr>clipboardData = None, defaultPrevented = False\<rparr>"

definition eventWithEmptyClipboard :: ClipboardEvent where
  "eventWithEmptyClipboard = \<lparr>clipboardData = Some Map.empty, defaultPrevented = False\<rparr>"

definition eventWithEmptyText :: ClipboardEvent where
  "eventWithEmptyText =
     \<lparr>clipboardData = Some [''text/plain'' \<mapsto> []], defaultPrevented = False\<rparr>"

section \<open>Properties\<close>

lemmas fixtures = chromeOnWindows_def edgeOnWindows_def exampleHost_def exampleTextArea_def
  exampleInput_def exampleInputJustWritten_def exampleLoneSurrogate_def exampleTyped_def
  examplePastePending_def examplePasted_def exampleCompositionEvent_def noClipboardWindow_def
  legacyClipboardWindow_def eventWithoutClipboard_def eventWithEmptyClipboard_def
  eventWithEmptyText_def

lemmas state_defs = EMPTY_def selectedText_def collapseSelection_def readFromTextArea_def
  writeToTextArea_def commonSuffixLength_def deduceInput_def charCodeAt_def isHighSurrogate_def

lemmas wrapper_defs = setIgnoreSelectionChangeTime_def getIgnoreSelectionChangeTime_def
  resetSelectionChangeTime_def getValue_def setValue_def getSelectionStart_def
  getSelectionEnd_def domFocus_def domSetSelectionRange_def setSelectionRange_def

subsection \<open>The selectionchange listener\<close>

lemma selectionchangeListener_previous:
  "previousSelectionChangeEventTime (fst (selectionchangeListener env host now s)) =
     (if reachesBurstFilter env s then now else previousSelectionChangeEventTime s)"
  by (simp add: selectionchangeListener_def reachesBurstFilter_def Let_def split: prod.splits)

lemma selectionchangeListener_ignoreTime:
  "getIgnoreSelectionChangeTime (textArea (fst (selectionchangeListener env host now s))) =
     (if reachesSelfInflictedCheck env now s then 0
      else getIgnoreSelectionChangeTime (textArea s))"
  by (simp add: selectionchangeListener_def reachesBurstFilter_def reachesSelfInflictedCheck_def
      resetSelectionChangeTime_def getIgnoreSelectionChangeTime_def Let_def split: prod.splits)

lemma selectionchangeListener_fires_iff:
  "snd (selectionchangeListener env host now s) \<noteq> [] \<longleftrightarrow>
     reachesSelfInflictedCheck env now s
     \<and> \<not> now - getIgnoreSelectionChangeTime (textArea s) < 100
     \<and> selectionStartPosition (textAreaState s) \<noteq> None
     \<and> selectionEndPosition (textAreaState s) \<noteq> None
     \<and> stateValue (textAreaState s) = getValue (textArea s)
     \<and> \<not> (selectionStart (textAreaState s) = getSelectionStart (textArea s)
          \<and> selectionEnd (textAreaState s) = getSelectionEnd (textArea s))"
  by (auto simp add: selectionchangeListener_def reachesBurstFilter_def reachesSelfInflictedCheck_def
      resetSelectionChangeTime_def getIgnoreSelectionChangeTime_def getValue_def
      getSelectionStart_def getSelectionEnd_def Let_def split: prod.splits)

text \<open>
  Claim C1.  A \<open>selectionchange\<close> event fires no selection change request (it
  fires nothing at all) while a composition is in progress, or while the
  textarea does not have focus, or when fewer than 100ms have passed since the
  wrapper's ignore-change timestamp, or when the textarea's live value differs
  from the value of the stored state.
\<close>

theorem selectionchange_suppressed:
  assumes "isDoingComposition s \<or> \<not> hasFocus s
           \<or> now - getIgnoreSelectionChangeTime (textArea s) < 100
           \<or> getValue (textArea s) \<noteq> stateValue (textAreaState s)"
  shows "snd (selectionchangeListener env host now s) = []"
proof (rule ccontr)
  assume "snd (selectionchangeListener env host now s) \<noteq> []"
  then have "hasFocus s" "\<not> isDoingComposition s"
    "\<not> now - getIgnoreSelectionChangeTime (textArea s) < 100"
    "stateValue (textAreaState s) = getValue (textArea s)"
    by (simp_all add: selectionchangeListener_fires_iff reachesSelfInflictedCheck_def
        reachesBurstFilter_def)
  with assms show False by auto
qed

text \<open>
  At time 1000 the example controller fires a request for the selection
  \<open>0..3\<close> of the textarea; the same event 50ms after a write fires nothing.
\<close>

theorem selectionchange_suppressed_witness:
  "1000 - getIgnoreSelectionChangeTime (textArea exampleInputJustWritten) < 100
   \<and> snd (selectionchangeListener chromeOnWindows exampleHost 1000 exampleInputJustWritten) = []
   \<and> snd (selectionchangeListener chromeOnWindows exampleHost 1000 exampleInput) =
         [OnSelectionChangeRequest
            \<lparr>selectionStartLineNumber = 1, selectionStartColumn = 1,
             positionLineNumber = 1, positionColumn = 4\<rparr>]"
  using selectionchange_suppressed [of exampleInputJustWritten 1000 chromeOnWindows exampleHost]
  by (simp add: fixtures wrapper_defs selectionchangeListener_def Let_def)


text \<open>
  The previous-event timestamp belongs to the \<open>selectionchange\<close> listener alone:
  no other listener and no method of the controller changes it.
\<close>

lemma setAndWrite_previous:
  "previousSelectionChangeEventTime (setAndWriteTextAreaState env now st s) =
     previousSelectionChangeEventTime s"
  by (simp add: setAndWriteTextAreaState_def Let_def)

lemma ensureClipboard_previous:
  "ensureClipboardGetsEditorSelection env host now win e s = Inr (s1, e1, win1, calls) \<Longrightarrow>
     previousSelectionChangeEventTime s1 = previousSelectionChangeEventTime s"
  by (auto simp add: ensureClipboardGetsEditorSelection_def Let_def setAndWrite_previous
      split: if_splits sum.splits)

lemma other_listeners_keep_previous:
  "previousSelectionChangeEventTime (fst (keydownListener ke s)) = previousSelectionChangeEventTime s"
  "previousSelectionChangeEventTime (fst (keyupListener ke s)) = previousSelectionChangeEventTime s"
  "previousSelectionChangeEventTime (fst (compositionstartListener env now s)) =
     previousSelectionChangeEventTime s"
  "previousSelectionChangeEventTime (fst (compositionupdateListener env ce s)) =
     previousSelectionChangeEventTime s"
  "previousSelectionChangeEventTime (fst (compositionendListener env ce s)) =
     previousSelectionChangeEventTime s"
  "previousSelectionChangeEventTime (fst (inputListener env now s)) =
     previousSelectionChangeEventTime s"
  "previousSelectionChangeEventTime (fst (focusListener env host now s)) =
     previousSelectionChangeEventTime s"
  "previousSelectionChangeEventTime (fst (blurListener env host now s)) =
     previousSelectionChangeEventTime s"
  "previousSelectionChangeEventTime (fst (focusTextArea env host now s)) =
     previousSelectionChangeEventTime s"
  "previousSelectionChangeEventTime (writeScreenReaderContent env host now s) =
     previousSelectionChangeEventTime s"
  "previousSelectionChangeEventTime (fst (asyncTriggerCutFires s)) =
     previousSelectionChangeEventTime s"
  by (simp_all add: keydownListener_def keyupListener_def compositionstartListener_def
      compositionupdateListener_def compositionendListener_def inputListener_def
      focusListener_def blurListener_def focusTextArea_def setHasFocus_def
      writeScreenReaderContent_def asyncTriggerCutFires_def setAndWrite_previous Let_def
      split: prod.splits)

lemma clipboard_listeners_keep_previous:
  "cutListener env host now win e s = Inr (s1, e1, win1, calls) \<Longrightarrow>
     previousSelectionChangeEventTime s1 = previousSelectionChangeEventTime s"
  "copyListener env host now win e s = Inr (s1, e1, win1, calls) \<Longrightarrow>
     previousSelectionChangeEventTime s1 = previousSelectionChangeEventTime s"
  "pasteListener env now win e s = Inr (s1, e1, evs) \<Longrightarrow>
     previousSelectionChangeEventTime s1 = previousSelectionChangeEventTime s"
  by (auto simp add: cutListener_def copyListener_def pasteListener_def Let_def
      setAndWrite_previous dest!: ensureClipboard_previous split: sum.splits if_splits prod.splits)

text \<open>
  Claim C7, as the code has it.  The previous-event timestamp is set to the
  time of every \<open>selectionchange\<close> event that passes the focus, composition and
  platform tests, whether or not the burst filter then lets it through; an event
  stopped by one of those three tests changes nothing.  Of two events less than
  5ms apart, the second finding the timestamp the first left or a later one (no
  other listener writes it, and an event in between can only move it forward),
  at most one gets past the burst filter and at most one fires a selection
  change request.
\<close>

theorem burst_filter:
  "(reachesBurstFilter env s \<longrightarrow>
      previousSelectionChangeEventTime (fst (selectionchangeListener env host now s)) = now)
   \<and> (\<not> reachesBurstFilter env s \<longrightarrow>
      selectionchangeListener env host now s = (s, []))
   \<and> (previousSelectionChangeEventTime (fst (selectionchangeListener env host t1 s))
        \<le> previousSelectionChangeEventTime s2
      \<and> t2 - t1 < 5 \<longrightarrow>
        \<not> (reachesSelfInflictedCheck env t1 s \<and> reachesSelfInflictedCheck env t2 s2)
        \<and> (snd (selectionchangeListener env host t1 s) = []
           \<or> snd (selectionchangeListener env host2 t2 s2) = []))"
proof (intro conjI impI)
  assume "reachesBurstFilter env s"
  then show "previousSelectionChangeEventTime (fst (selectionchangeListener env host now s)) = now"
    by (simp add: selectionchangeListener_previous)
next
  assume "\<not> reachesBurstFilter env s"
  then show "selectionchangeListener env host now s = (s, [])"
    by (auto simp: selectionchangeListener_def reachesBurstFilter_def)
next
  assume h: "previousSelectionChangeEventTime (fst (selectionchangeListener env host t1 s))
        \<le> previousSelectionChangeEventTime s2
      \<and> t2 - t1 < 5"
  show "\<not> (reachesSelfInflictedCheck env t1 s \<and> reachesSelfInflictedCheck env t2 s2)"
  proof
    assume r: "reachesSelfInflictedCheck env t1 s \<and> reachesSelfInflictedCheck env t2 s2"
    then have "reachesBurstFilter env s"
      by (simp add: reachesSelfInflictedCheck_def)
    then have "t1 \<le> previousSelectionChangeEventTime s2"
      using h by (simp add: selectionchangeListener_previous)
    with h r show False
      by (simp add: reachesSelfInflictedCheck_def)
  qed
  then show "snd (selectionchangeListener env host t1 s) = []
           \<or> snd (selectionchangeListener env host2 t2 s2) = []"
    using selectionchangeListener_fires_iff [of env host t1 s]
      selectionchangeListener_fires_iff [of env host2 t2 s2] by blast
qed

text \<open>
  The claim as stated fails: an event received at time 1000 while the textarea
  does not have focus leaves the previous-event timestamp at 0.
\<close>

theorem burst_filter_counterexample:
  "previousSelectionChangeEventTime
     (fst (selectionchangeListener chromeOnWindows exampleHost 1000 (exampleInput\<lparr>hasFocus := False\<rparr>))) = 0
   \<and> previousSelectionChangeEventTime
     (fst (selectionchangeListener chromeOnWindows exampleHost 1000 (exampleInput\<lparr>hasFocus := False\<rparr>))) \<noteq> 1000"
  by (simp add: fixtures selectionchangeListener_def)

text \<open>
  The event at time 1000 fires a request and sets the timestamp; a second event
  at time 1003, after the caret moved again, fires nothing.
\<close>

theorem burst_filter_witness:
  "reachesBurstFilter chromeOnWindows exampleInput
   \<and> previousSelectionChangeEventTime
        (fst (selectionchangeListener chromeOnWindows exampleHost 1000 exampleInput)) = 1000
   \<and> snd (selectionchangeListener chromeOnWindows exampleHost 1000 exampleInput) \<noteq> []
   \<and> (1003::int) - 1000 < 5
   \<and> snd (selectionchangeListener chromeOnWindows exampleHost 1003
        ((fst (selectionchangeListener chromeOnWindows exampleHost 1000 exampleInput))
           \<lparr>textArea := exampleTextArea\<lparr>domSelectionEnd := 2\<rparr>\<rparr>)) = []"
  using burst_filter [where env=chromeOnWindows and s=exampleInput and host=exampleHost
      and now=1000 and ?t1.0=1000 and ?t2.0=1003 and ?host2.0=exampleHost
      and ?s2.0="(fst (selectionchangeListener chromeOnWindows exampleHost 1000 exampleInput))
           \<lparr>textArea := exampleTextArea\<lparr>domSelectionEnd := 2\<rparr>\<rparr>"]
  by (simp add: fixtures wrapper_defs selectionchangeListener_def reachesBurstFilter_def Let_def)

text \<open>
  Claim C10.  An event that reaches the comparison with the self-inflicted
  window leaves the wrapper's ignore-change timestamp at zero.  So when no write
  to the textarea sets the timestamp again before the next event that reaches
  the comparison, that event is not rejected by the 100ms window: whether it
  fires a request depends only on the later tests (anchors, value, selection).
  The clock reading \<open>Date.now()\<close> counts milliseconds since 1970, so it is at
  least 100.
\<close>

theorem ignore_time_reset:
  "(reachesSelfInflictedCheck env now s \<longrightarrow>
      getIgnoreSelectionChangeTime (textArea (fst (selectionchangeListener env host now s))) = 0)
   \<and> (reachesSelfInflictedCheck env now s
        \<and> getIgnoreSelectionChangeTime (textArea s2) =
            getIgnoreSelectionChangeTime (textArea (fst (selectionchangeListener env host now s)))
        \<and> reachesSelfInflictedCheck env now2 s2 \<and> 100 \<le> now2 \<longrightarrow>
        \<not> now2 - getIgnoreSelectionChangeTime (textArea s2) < 100
        \<and> (snd (selectionchangeListener env host2 now2 s2) \<noteq> [] \<longleftrightarrow>
             selectionStartPosition (textAreaState s2) \<noteq> None
             \<and> selectionEndPosition (textAreaState s2) \<noteq> None
             \<and> stateValue (textAreaState s2) = getValue (textArea s2)
             \<and> \<not> (selectionStart (textAreaState s2) = getSelectionStart (textArea s2)
                  \<and> selectionEnd (textAreaState s2) = getSelectionEnd (textArea s2))))"
  by (simp add: selectionchangeListener_ignoreTime selectionchangeListener_fires_iff)

text \<open>
  50ms after a write at time 950 the event at time 1000 is rejected and resets
  the timestamp; the next event, at time 1010, is only 60ms after the write and
  fires the request.
\<close>

theorem ignore_time_reset_witness:
  "reachesSelfInflictedCheck chromeOnWindows 1000 exampleInputJustWritten
   \<and> selectionchangeListener chromeOnWindows exampleHost 1000 exampleInputJustWritten =
       (exampleInput\<lparr>previousSelectionChangeEventTime := 1000\<rparr>, [])
   \<and> reachesSelfInflictedCheck chromeOnWindows 1010
       (exampleInput\<lparr>previousSelectionChangeEventTime := 1000\<rparr>)
   \<and> snd (selectionchangeListener chromeOnWindows exampleHost 1010
             (exampleInput\<lparr>previousSelectionChangeEventTime := 1000\<rparr>)) =
         [OnSelectionChangeRequest
            \<lparr>selectionStartLineNumber = 1, selectionStartColumn = 1,
             positionLineNumber = 1, positionColumn = 4\<rparr>]"
  using ignore_time_reset [where env=chromeOnWindows and now=1000 and s=exampleInputJustWritten
      and host=exampleHost and ?now2.0=1010 and ?host2.0=exampleHost
      and ?s2.0="exampleInput\<lparr>previousSelectionChangeEventTime := 1000\<rparr>"]
  by (simp add: fixtures wrapper_defs selectionchangeListener_def reachesBurstFilter_def
      reachesSelfInflictedCheck_def Let_def)

subsection \<open>The clipboard\<close>


text \<open>
  Claim C9.  \<open>getTextData\<close> and \<open>setTextData\<close> throw exactly when
  \<open>canUseTextData\<close> is false, that is exactly when neither \<open>e.clipboardData\<close> nor
  \<open>window.clipboardData\<close> is present; nothing else is tried before the error.
\<close>

theorem clipboard_unavailable:
  "isl (getTextData win e) = (\<not> canUseTextData win e)
   \<and> isl (setTextData win e t r) = (\<not> canUseTextData win e)
   \<and> canUseTextData win e = (clipboardData e \<noteq> None \<or> windowClipboardData win \<noteq> None)
   \<and> (\<not> canUseTextData win e \<longrightarrow>
        getTextData win e = Inl (Error ''ClipboardEventUtils.getTextData: Cannot use text data!'')
      \<and> setTextData win e t r = Inl (Error ''ClipboardEventUtils.setTextData: Cannot use text data!''))"
  by (auto simp: getTextData_def setTextData_def canUseTextData_def Let_def split: option.splits)

theorem clipboard_unavailable_witness:
  "\<not> canUseTextData noClipboardWindow eventWithoutClipboard
   \<and> getTextData noClipboardWindow eventWithoutClipboard =
        Inl (Error ''ClipboardEventUtils.getTextData: Cannot use text data!'')
   \<and> setTextData noClipboardWindow eventWithoutClipboard [0x61] None =
        Inl (Error ''ClipboardEventUtils.setTextData: Cannot use text data!'')
   \<and> canUseTextData legacyClipboardWindow eventWithoutClipboard
   \<and> getTextData legacyClipboardWindow eventWithoutClipboard =
        Inr ([], eventWithoutClipboard\<lparr>defaultPrevented := True\<rparr>)"
  using clipboard_unavailable [of noClipboardWindow eventWithoutClipboard "[0x61]" None]
    clipboard_unavailable [of legacyClipboardWindow eventWithoutClipboard "[0x61]" None]
  by (simp add: fixtures canUseTextData_def getTextData_def getData_def preventDefault_def)

lemma ensureClipboard_calls:
  "(case ensureClipboardGetsEditorSelection env host now win e s of
      Inl err \<Rightarrow> False
    | Inr (s1, e1, win1, calls) \<Rightarrow>
        (CallGetHTMLToCopy \<in> set calls \<longleftrightarrow>
           canUseTextData win e \<and> \<not> isEdgeOrIE env
           \<and> (int (length (getPlainTextToCopy host)) < 65536 \<or> forceCopyWithSyntaxHighlighting env)))"
  by (auto simp: ensureClipboardGetsEditorSelection_def setTextData_def canUseTextData_def
      Let_def split: option.splits sum.splits)

text \<open>
  Claim C8, as the code has it.  The \<open>copy\<close> and \<open>cut\<close> listeners never throw,
  and they ask the host for the HTML exactly when a clipboard API can be used,
  the browser is not Edge or IE, and the plain text is shorter than 65536 code
  units or \<open>forceCopyWithSyntaxHighlighting\<close> is set.  \<open>setTextData\<close> on an event
  with \<open>clipboardData\<close> stores the plain text under \<open>text/plain\<close> and, when the
  rich text is not \<open>null\<close>, the rich text under \<open>text/html\<close>; on the legacy
  \<open>window.clipboardData\<close> it stores the plain text under \<open>Text\<close> and nothing
  else, whatever the rich text is.
\<close>

theorem clipboard_staging:
  "(case copyListener env host now win e s of
      Inl err \<Rightarrow> False
    | Inr (s1, e1, win1, calls) \<Rightarrow>
        (CallGetHTMLToCopy \<in> set calls \<longleftrightarrow>
           canUseTextData win e \<and> \<not> isEdgeOrIE env
           \<and> (int (length (getPlainTextToCopy host)) < 65536 \<or> forceCopyWithSyntaxHighlighting env)))
   \<and> (case cutListener env host now win e s of
      Inl err \<Rightarrow> False
    | Inr (s1, e1, win1, calls) \<Rightarrow>
        (CallGetHTMLToCopy \<in> set calls \<longleftrightarrow>
           canUseTextData win e \<and> \<not> isEdgeOrIE env
           \<and> (int (length (getPlainTextToCopy host)) < 65536 \<or> forceCopyWithSyntaxHighlighting env)))
   \<and> (case clipboardData e of
        Some d \<Rightarrow>
          setTextData win e t None =
            Inr (e\<lparr>clipboardData := Some (d(''text/plain'' \<mapsto> t)), defaultPrevented := True\<rparr>, win)
          \<and> setTextData win e t (Some html) =
            Inr (e\<lparr>clipboardData := Some (d(''text/plain'' \<mapsto> t, ''text/html'' \<mapsto> html)),
                   defaultPrevented := True\<rparr>, win)
      | None \<Rightarrow>
         (case windowClipboardData win of
            Some d \<Rightarrow>
              setTextData win e t richText =
                Inr (e\<lparr>defaultPrevented := True\<rparr>,
                     win\<lparr>windowClipboardData := Some (d(''Text'' \<mapsto> t))\<rparr>)
          | None \<Rightarrow> isl (setTextData win e t richText)))"
proof (intro conjI)
  show "case copyListener env host now win e s of
      Inl err \<Rightarrow> False
    | Inr (s1, e1, win1, calls) \<Rightarrow>
        (CallGetHTMLToCopy \<in> set calls \<longleftrightarrow>
           canUseTextData win e \<and> \<not> isEdgeOrIE env
           \<and> (int (length (getPlainTextToCopy host)) < 65536 \<or> forceCopyWithSyntaxHighlighting env))"
    using ensureClipboard_calls [where env=env and host=host and now=now and win=win and e=e and s=s]
    by (simp add: copyListener_def)
next
  show "case cutListener env host now win e s of
      Inl err \<Rightarrow> False
    | Inr (s1, e1, win1, calls) \<Rightarrow>
        (CallGetHTMLToCopy \<in> set calls \<longleftrightarrow>
           canUseTextData win e \<and> \<not> isEdgeOrIE env
           \<and> (int (length (getPlainTextToCopy host)) < 65536 \<or> forceCopyWithSyntaxHighlighting env))"
    using ensureClipboard_calls [where env=env and host=host and now=now and win=win and e=e
        and s="s\<lparr>textArea := setIgnoreSelectionChangeTime now (textArea s)\<rparr>"]
    by (auto simp add: cutListener_def Let_def split: sum.splits)
next
  show "case clipboardData e of
        Some d \<Rightarrow>
          setTextData win e t None =
            Inr (e\<lparr>clipboardData := Some (d(''text/plain'' \<mapsto> t)), defaultPrevented := True\<rparr>, win)
          \<and> setTextData win e t (Some html) =
            Inr (e\<lparr>clipboardData := Some (d(''text/plain'' \<mapsto> t, ''text/html'' \<mapsto> html)),
                   defaultPrevented := True\<rparr>, win)
      | None \<Rightarrow>
         (case windowClipboardData win of
            Some d \<Rightarrow>
              setTextData win e t richText =
                Inr (e\<lparr>defaultPrevented := True\<rparr>,
                     win\<lparr>windowClipboardData := Some (d(''Text'' \<mapsto> t))\<rparr>)
          | None \<Rightarrow> isl (setTextData win e t richText))"
    by (simp add: setTextData_def setData_def preventDefault_def Let_def split: option.splits)
qed

text \<open>
  The claim as stated fails: on Edge a \<open>copy\<close> of the two code units \<open>"ab"\<close>,
  far below the threshold, asks the host for the plain text only and writes no
  \<open>text/html\<close>.
\<close>

theorem clipboard_staging_counterexample:
  "int (length (getPlainTextToCopy exampleHost)) < 65536
   \<and> copyListener edgeOnWindows exampleHost 1000 noClipboardWindow eventWithEmptyClipboard exampleInput =
       Inr (exampleInput,
            \<lparr>clipboardData = Some [''text/plain'' \<mapsto> [0x61, 0x62]], defaultPrevented = True\<rparr>,
            noClipboardWindow, [CallGetPlainTextToCopy])"
  by (simp add: fixtures copyListener_def ensureClipboardGetsEditorSelection_def
      canUseTextData_def setTextData_def setData_def preventDefault_def Let_def)

text \<open>
  On Chrome the same \<open>copy\<close> asks for the HTML and writes both formats; with only
  the legacy clipboard the HTML is asked for but only \<open>Text\<close> is written.
\<close>

theorem clipboard_staging_witness:
  "copyListener chromeOnWindows exampleHost 1000 noClipboardWindow eventWithEmptyClipboard exampleInput =
       Inr (exampleInput,
            \<lparr>clipboardData = Some [''text/plain'' \<mapsto> [0x61, 0x62], ''text/html'' \<mapsto> [0x3C, 0x62, 0x3E]],
             defaultPrevented = True\<rparr>,
            noClipboardWindow, [CallGetPlainTextToCopy, CallGetHTMLToCopy])
   \<and> copyListener chromeOnWindows exampleHost 1000 legacyClipboardWindow eventWithoutClipboard exampleInput =
       Inr (exampleInput, \<lparr>clipboardData = None, defaultPrevented = True\<rparr>,
            \<lparr>windowClipboardData = Some [''Text'' \<mapsto> [0x61, 0x62]]\<rparr>,
            [CallGetPlainTextToCopy, CallGetHTMLToCopy])"
  using clipboard_staging [where env=chromeOnWindows and host=exampleHost and now=1000
      and win=noClipboardWindow and e=eventWithEmptyClipboard and s=exampleInput]
  by (simp add: fixtures copyListener_def ensureClipboardGetsEditorSelection_def
      canUseTextData_def setTextData_def setData_def preventDefault_def Let_def)

subsection \<open>Writing the empty state to the textarea\<close>

lemma collapseSelection_EMPTY: "collapseSelection EMPTY = EMPTY"
  by (simp add: collapseSelection_def EMPTY_def)

lemma setSelectionRange_value: "domValue (setSelectionRange env now a b w) = domValue w"
  by (simp add: setSelectionRange_def Let_def domFocus_def domSetSelectionRange_def
      setIgnoreSelectionChangeTime_def)

lemma writeToTextArea_value:
  "getValue (writeToTextArea env now st w select) = stateValue st"
  by (simp add: writeToTextArea_def Let_def getValue_def setSelectionRange_value setValue_def
      setIgnoreSelectionChangeTime_def)

lemma setSelectionRange_selection:
  assumes "domIsActiveElement w \<or> \<not> domSelectionThrows w"
  shows "domSelectionStart (setSelectionRange env now a b w) = a
       \<and> domSelectionEnd (setSelectionRange env now a b w) = b"
  using assms
  by (auto simp: setSelectionRange_def Let_def domFocus_def domSetSelectionRange_def
      setIgnoreSelectionChangeTime_def)

lemma writeToTextArea_selection:
  assumes "domIsActiveElement w \<or> \<not> domSelectionThrows w"
  shows "getSelectionStart (writeToTextArea env now st w True) = selectionStart st
       \<and> getSelectionEnd (writeToTextArea env now st w True) = selectionEnd st"
proof -
  let ?w1 = "setValue now (stateValue st) w"
  have "domIsActiveElement ?w1 \<or> \<not> domSelectionThrows ?w1"
    using assms by (simp add: setValue_def setIgnoreSelectionChangeTime_def)
  then show ?thesis
    by (simp add: writeToTextArea_def getSelectionStart_def getSelectionEnd_def
        setSelectionRange_selection)
qed

lemma setAndWrite_EMPTY:
  "textAreaState (setAndWriteTextAreaState env now EMPTY s) = EMPTY"
  "getValue (textArea (setAndWriteTextAreaState env now EMPTY s)) = []"
  "hasFocus (setAndWriteTextAreaState env now st s) = hasFocus s"
  "isDoingComposition (setAndWriteTextAreaState env now st s) = isDoingComposition s"
  "nextCommand (setAndWriteTextAreaState env now st s) = nextCommand s"
  "previousSelectionChangeEventTime (setAndWriteTextAreaState env now st s) =
     previousSelectionChangeEventTime s"
  by (simp_all add: setAndWriteTextAreaState_def Let_def collapseSelection_EMPTY
      writeToTextArea_value, simp_all add: EMPTY_def)

lemma setAndWrite_EMPTY_selection:
  assumes "hasFocus s" "domIsActiveElement (textArea s) \<or> \<not> domSelectionThrows (textArea s)"
  shows "getSelectionStart (textArea (setAndWriteTextAreaState env now EMPTY s)) = 0
       \<and> getSelectionEnd (textArea (setAndWriteTextAreaState env now EMPTY s)) = 0"
  using assms writeToTextArea_selection [of "textArea s" env now EMPTY]
  by (simp add: setAndWriteTextAreaState_def Let_def EMPTY_def)

subsection \<open>Composition\<close>

text \<open>
  Claim C6.  A \<open>compositionstart\<close> event received while a composition is in
  progress changes nothing and fires nothing.  Otherwise the controller enters
  the composition, fires exactly one composition start event, and writes the
  empty state to the textarea (the stored state becomes \<open>EMPTY\<close>, the textarea's
  value becomes empty, and with focus its selection becomes \<open>0..0\<close> unless the DOM
  throws), except on Edge and IE, where nothing but the flag changes.
\<close>

theorem composition_start:
  "(isDoingComposition s \<longrightarrow> compositionstartListener env now s = (s, []))
   \<and> (\<not> isDoingComposition s \<longrightarrow>
        snd (compositionstartListener env now s) = [OnCompositionStart]
        \<and> isDoingComposition (fst (compositionstartListener env now s))
        \<and> (isEdgeOrIE env \<longrightarrow>
             fst (compositionstartListener env now s) = s\<lparr>isDoingComposition := True\<rparr>)
        \<and> (\<not> isEdgeOrIE env \<longrightarrow>
             fst (compositionstartListener env now s) =
               setAndWriteTextAreaState env now EMPTY (s\<lparr>isDoingComposition := True\<rparr>)
             \<and> textAreaState (fst (compositionstartListener env now s)) = EMPTY
             \<and> getValue (textArea (fst (compositionstartListener env now s))) = []
             \<and> (hasFocus s \<and> (domIsActiveElement (textArea s) \<or> \<not> domSelectionThrows (textArea s)) \<longrightarrow>
                  getSelectionStart (textArea (fst (compositionstartListener env now s))) = 0
                  \<and> getSelectionEnd (textArea (fst (compositionstartListener env now s))) = 0)))"
  using setAndWrite_EMPTY_selection [of "s\<lparr>isDoingComposition := True\<rparr>" env now]
  by (simp add: compositionstartListener_def Let_def setAndWrite_EMPTY)

theorem composition_start_witness:
  "\<not> isDoingComposition exampleInput
   \<and> compositionstartListener chromeOnWindows 1000 exampleInput =
       (exampleInput\<lparr>isDoingComposition := True, textAreaState := EMPTY,
                     textArea := \<lparr>ignoreSelectionChangeTime = 1000, domValue = [],
                                  domSelectionStart = 0, domSelectionEnd = 0,
                                  domIsActiveElement = True, domSelectionThrows = False\<rparr>\<rparr>,
        [OnCompositionStart])
   \<and> compositionstartListener edgeOnWindows 1000 exampleInput =
       (exampleInput\<lparr>isDoingComposition := True\<rparr>, [OnCompositionStart])
   \<and> compositionstartListener chromeOnWindows 1000 (exampleInput\<lparr>isDoingComposition := True\<rparr>) =
       (exampleInput\<lparr>isDoingComposition := True\<rparr>, [])"
  using composition_start [of exampleInput chromeOnWindows 1000]
    composition_start [of exampleInput edgeOnWindows 1000]
    composition_start [of "exampleInput\<lparr>isDoingComposition := True\<rparr>" chromeOnWindows 1000]
  by (simp add: fixtures wrapper_defs state_defs compositionstartListener_def
      setAndWriteTextAreaState_def Let_def)

text \<open>
  Claim C5, as the code has it.  A \<open>compositionend\<close> event received while no
  composition is in progress is not an error: it fires no composition end event
  and the controller stays outside composition.  The type event deduced from the
  event is fired all the same, and it is the only event fired.
\<close>

theorem composition_end_without_start:
  assumes "\<not> isDoingComposition s"
  shows "OnCompositionEnd \<notin> set (snd (compositionendListener env e s))
     \<and> \<not> isDoingComposition (fst (compositionendListener env e s))
     \<and> snd (compositionendListener env e s) =
         [OnType (snd (if isEdgeOrIE env \<and> compositionLocale e = ''ja''
                       then deduceInputFromTextAreaValue env s False
                       else deduceComposition s (compositionData e)))]"
  using assms by (simp add: compositionendListener_def Let_def split: prod.splits)

text \<open>
  The claim as stated fails: outside composition, a \<open>compositionend\<close> event with
  the data \<open>"a"\<close> fires a type event.
\<close>

theorem composition_end_without_start_counterexample:
  "\<not> isDoingComposition exampleInput
   \<and> snd (compositionendListener chromeOnWindows exampleCompositionEvent exampleInput) =
       [OnType \<lparr>typeText = [0x61], replaceCharCnt = 0\<rparr>]"
  by (simp add: fixtures compositionendListener_def deduceComposition_def selectedText_def Let_def)

theorem composition_end_without_start_witness:
  "\<not> isDoingComposition exampleInput
   \<and> OnCompositionEnd \<notin> set (snd (compositionendListener chromeOnWindows exampleCompositionEvent exampleInput))
   \<and> \<not> isDoingComposition (fst (compositionendListener chromeOnWindows exampleCompositionEvent exampleInput))
   \<and> snd (compositionendListener chromeOnWindows exampleCompositionEvent exampleInput) =
        [OnType \<lparr>typeText = [0x61], replaceCharCnt = 0\<rparr>]"
  using composition_end_without_start [of exampleInput chromeOnWindows exampleCompositionEvent]
  by (simp add: fixtures deduceComposition_def selectedText_def Let_def)

subsection \<open>The input listener\<close>

lemma deduceInputFromTextAreaValue_ignoreTime:
  "deduceInputFromTextAreaValue env (s\<lparr>textArea := setIgnoreSelectionChangeTime now (textArea s)\<rparr>) b
     = deduceInputFromTextAreaValue env s b"
  by (simp add: deduceInputFromTextAreaValue_def readFromTextArea_def Let_def getValue_def
      getSelectionStart_def getSelectionEnd_def setIgnoreSelectionChangeTime_def)

lemma loneSurrogate_deduced:
  "deduceInputFromTextAreaValue chromeOnWindows exampleLoneSurrogate (isMacintosh chromeOnWindows) =
     (\<lparr>stateValue = [0xD83D], selectionStart = 1, selectionEnd = 1,
       selectionStartPosition = None, selectionEndPosition = None\<rparr>,
      \<lparr>typeText = [0xD83D], replaceCharCnt = 0\<rparr>)"
  by (simp add: fixtures wrapper_defs state_defs deduceInputFromTextAreaValue_def Let_def)

lemma typed_deduced:
  "deduceInputFromTextAreaValue chromeOnWindows (exampleTyped\<lparr>nextCommand := c\<rparr>) (isMacintosh chromeOnWindows) =
     (\<lparr>stateValue = [0x61, 0x62, 0x63], selectionStart = 3, selectionEnd = 3,
       selectionStartPosition = None, selectionEndPosition = None\<rparr>,
      \<lparr>typeText = [0x63], replaceCharCnt = 0\<rparr>)"
  by (simp add: fixtures wrapper_defs state_defs deduceInputFromTextAreaValue_def Let_def)

text \<open>
  Claim C4.  When an \<open>input\<close> event arrives outside composition and the deduced
  input replaces nothing and its text is exactly one high surrogate, no event is
  fired and the stored state stays what it was; only the wrapper's ignore-change
  timestamp is set.
\<close>

theorem lone_high_surrogate_ignored:
  assumes "\<not> isDoingComposition s"
      and "deduceInputFromTextAreaValue env s (isMacintosh env) = (newState, typeInput)"
      and "replaceCharCnt typeInput = 0"
      and "typeText typeInput = [c]"
      and "isHighSurrogate (Some (uint c))"
  shows "snd (inputListener env now s) = []
       \<and> textAreaState (fst (inputListener env now s)) = textAreaState s
       \<and> fst (inputListener env now s) = s\<lparr>textArea := setIgnoreSelectionChangeTime now (textArea s)\<rparr>"
  using assms
  by (simp add: inputListener_def Let_def deduceInputFromTextAreaValue_ignoreTime charCodeAt_def)

theorem lone_high_surrogate_ignored_witness:
  "\<not> isDoingComposition exampleLoneSurrogate
   \<and> snd (deduceInputFromTextAreaValue chromeOnWindows exampleLoneSurrogate False) =
        \<lparr>typeText = [0xD83D], replaceCharCnt = 0\<rparr>
   \<and> isHighSurrogate (Some (uint (0xD83D :: 16 word)))
   \<and> snd (inputListener chromeOnWindows 1000 exampleLoneSurrogate) = []
   \<and> textAreaState (fst (inputListener chromeOnWindows 1000 exampleLoneSurrogate)) = EMPTY"
proof -
  have h1: "\<not> isDoingComposition exampleLoneSurrogate"
    by (simp add: fixtures)
  have h2: "isHighSurrogate (Some (uint (0xD83D :: 16 word)))"
    by (simp add: isHighSurrogate_def)
  have h3: "isMacintosh chromeOnWindows = False"
    by (simp add: fixtures)
  have h4: "textAreaState exampleLoneSurrogate = EMPTY"
    by (simp add: fixtures)
  show ?thesis
    using lone_high_surrogate_ignored [OF h1 loneSurrogate_deduced _ _ h2, of 1000]
      h1 h2 h4 loneSurrogate_deduced
    by (simp add: h3)
qed

text \<open>
  Claim C3, as the code has it.  On an \<open>input\<close> event outside composition whose
  deduced input is not the lone high surrogate of claim C4: a non-empty text is
  fired as a type event when the next command is \<open>Type\<close> and as a paste event
  carrying the text when the next command is \<open>Paste\<close>; an empty text fires
  nothing; afterwards the next command is \<open>Type\<close> in every case, and the stored
  state is the state just read.
\<close>

theorem input_outside_composition:
  assumes "\<not> isDoingComposition s"
      and "deduceInputFromTextAreaValue env s (isMacintosh env) = (newState, typeInput)"
      and "\<not> (replaceCharCnt typeInput = 0 \<and> int (length (typeText typeInput)) = 1
              \<and> isHighSurrogate (charCodeAt (typeText typeInput) 0))"
  shows "(typeText typeInput \<noteq> [] \<and> nextCommand s = Type \<longrightarrow>
            snd (inputListener env now s) = [OnType typeInput])
       \<and> (typeText typeInput \<noteq> [] \<and> nextCommand s = Paste \<longrightarrow>
            snd (inputListener env now s) = [OnPaste (typeText typeInput)])
       \<and> (typeText typeInput = [] \<longrightarrow> snd (inputListener env now s) = [])
       \<and> nextCommand (fst (inputListener env now s)) = Type
       \<and> textAreaState (fst (inputListener env now s)) = newState"
  using assms
  by (cases "nextCommand s")
     (auto simp add: inputListener_def Let_def deduceInputFromTextAreaValue_ignoreTime)

text \<open>
  The claim as stated fails: the lone high surrogate is a non-empty deduced
  text, yet with the next command \<open>Type\<close> no type event is fired, and with the
  next command \<open>Paste\<close> no paste event is fired and the next command stays
  \<open>Paste\<close>.
\<close>

theorem input_outside_composition_counterexample:
  "\<not> isDoingComposition exampleLoneSurrogate
   \<and> typeText (snd (deduceInputFromTextAreaValue chromeOnWindows exampleLoneSurrogate
                      (isMacintosh chromeOnWindows))) = [0xD83D]
   \<and> nextCommand exampleLoneSurrogate = Type
   \<and> snd (inputListener chromeOnWindows 1000 exampleLoneSurrogate) = []
   \<and> typeText (snd (deduceInputFromTextAreaValue chromeOnWindows
                      (exampleLoneSurrogate\<lparr>nextCommand := Paste\<rparr>) (isMacintosh chromeOnWindows)))
       = [0xD83D]
   \<and> snd (inputListener chromeOnWindows 1000 (exampleLoneSurrogate\<lparr>nextCommand := Paste\<rparr>)) = []
   \<and> nextCommand (fst (inputListener chromeOnWindows 1000 (exampleLoneSurrogate\<lparr>nextCommand := Paste\<rparr>))) = Paste"
  by (simp add: fixtures wrapper_defs state_defs deduceInputFromTextAreaValue_def
      inputListener_def Let_def)

theorem input_outside_composition_witness:
  "snd (inputListener chromeOnWindows 1000 (exampleTyped\<lparr>nextCommand := Type\<rparr>)) =
      [OnType \<lparr>typeText = [0x63], replaceCharCnt = 0\<rparr>]
   \<and> nextCommand (fst (inputListener chromeOnWindows 1000 (exampleTyped\<lparr>nextCommand := Type\<rparr>))) = Type
   \<and> snd (inputListener chromeOnWindows 1000 (exampleTyped\<lparr>nextCommand := Paste\<rparr>)) = [OnPaste [0x63]]
   \<and> nextCommand (fst (inputListener chromeOnWindows 1000 (exampleTyped\<lparr>nextCommand := Paste\<rparr>))) = Type"
proof -
  have h1: "\<not> isDoingComposition (exampleTyped\<lparr>nextCommand := c\<rparr>)" for c
    by (simp add: fixtures)
  have h3: "\<not> (replaceCharCnt \<lparr>typeText = [0x63 :: 16 word], replaceCharCnt = 0\<rparr> = 0
      \<and> int (length (typeText \<lparr>typeText = [0x63 :: 16 word], replaceCharCnt = 0\<rparr>)) = 1
      \<and> isHighSurrogate (charCodeAt (typeText \<lparr>typeText = [0x63 :: 16 word], replaceCharCnt = 0\<rparr>) 0))"
    by (simp add: isHighSurrogate_def charCodeAt_def)
  show ?thesis
    using input_outside_composition [OF h1 typed_deduced h3, of Type 1000]
      input_outside_composition [OF h1 typed_deduced h3, of Paste 1000]
    by simp
qed

subsection \<open>Paste without access to the clipboard\<close>

lemma commonPrefixLength_Nil: "commonPrefixLength [] ys = 0"
  by (cases ys) simp_all

lemma deduceInput_from_EMPTY:
  assumes "stateValue newState \<noteq> []"
  shows "deduceInput EMPTY newState b = \<lparr>typeText = stateValue newState, replaceCharCnt = 0\<rparr>"
  using assms
  by (simp add: deduceInput_def EMPTY_def commonSuffixLength_def commonPrefixLength_Nil Let_def)

lemma inputListener_after_EMPTY:
  assumes "textAreaState s = EMPTY" "\<not> isDoingComposition s" "nextCommand s = Paste"
      and "getValue (textArea s) \<noteq> []"
      and "\<not> (int (length (getValue (textArea s))) = 1
             \<and> isHighSurrogate (charCodeAt (getValue (textArea s)) 0))"
  shows "snd (inputListener env now s) = [OnPaste (getValue (textArea s))]
       \<and> nextCommand (fst (inputListener env now s)) = Type"
proof -
  let ?new = "readFromTextArea env (textAreaState s) (textArea s)"
  have v: "stateValue ?new = getValue (textArea s)"
    by (simp add: readFromTextArea_def)
  have d: "deduceInputFromTextAreaValue env s (isMacintosh env) =
      (?new, \<lparr>typeText = getValue (textArea s), replaceCharCnt = 0\<rparr>)"
    using assms(1,4) v deduceInput_from_EMPTY [of ?new "isMacintosh env"]
    by (simp add: deduceInputFromTextAreaValue_def Let_def)
  show ?thesis
    using assms d
    by (auto simp add: inputListener_def Let_def deduceInputFromTextAreaValue_ignoreTime)
qed

lemma paste_then_input:
  assumes "\<not> canUseTextData win e"
      and "getSelectionStart (textArea s) \<noteq> getSelectionEnd (textArea s)"
      and "\<not> isDoingComposition s"
  shows "\<exists>s1. pasteListener env now win e s = Inr (s1, e, [])
          \<and> s1 = (setAndWriteTextAreaState env now EMPTY
                     (s\<lparr>textArea := setIgnoreSelectionChangeTime now (textArea s)\<rparr>))
                   \<lparr>nextCommand := Paste\<rparr>
          \<and> textAreaState s1 = EMPTY \<and> getValue (textArea s1) = [] \<and> nextCommand s1 = Paste
          \<and> (\<forall>s2 now2.
                textAreaState s2 = textAreaState s1 \<and> nextCommand s2 = nextCommand s1
                \<and> isDoingComposition s2 = isDoingComposition s1
                \<and> getValue (textArea s2) \<noteq> []
                \<and> \<not> (int (length (getValue (textArea s2))) = 1
                       \<and> isHighSurrogate (charCodeAt (getValue (textArea s2)) 0))
                \<longrightarrow> snd (inputListener env now2 s2) = [OnPaste (getValue (textArea s2))]
                    \<and> nextCommand (fst (inputListener env now2 s2)) = Type)"
proof -
  let ?s0 = "s\<lparr>textArea := setIgnoreSelectionChangeTime now (textArea s)\<rparr>"
  let ?s1 = "(setAndWriteTextAreaState env now EMPTY ?s0)\<lparr>nextCommand := Paste\<rparr>"
  have sel: "getSelectionStart (textArea ?s0) \<noteq> getSelectionEnd (textArea ?s0)"
    using assms(2)
    by (simp add: getSelectionStart_def getSelectionEnd_def setIgnoreSelectionChangeTime_def)
  have p: "pasteListener env now win e s = Inr (?s1, e, [])"
    using assms(1) sel by (simp add: pasteListener_def Let_def)
  have st: "textAreaState ?s1 = EMPTY" "getValue (textArea ?s1) = []" "nextCommand ?s1 = Paste"
    "\<not> isDoingComposition ?s1"
    using assms(3) by (simp_all add: setAndWrite_EMPTY)
  have "snd (inputListener env now2 s2) = [OnPaste (getValue (textArea s2))]
        \<and> nextCommand (fst (inputListener env now2 s2)) = Type"
    if "textAreaState s2 = textAreaState ?s1 \<and> nextCommand s2 = nextCommand ?s1
        \<and> isDoingComposition s2 = isDoingComposition ?s1
        \<and> getValue (textArea s2) \<noteq> []
        \<and> \<not> (int (length (getValue (textArea s2))) = 1
               \<and> isHighSurrogate (charCodeAt (getValue (textArea s2)) 0))" for s2 now2
    using that st inputListener_after_EMPTY [of s2 env now2] by simp
  with p st show ?thesis by blast
qed

text \<open>
  Claim C2, as the code has it.  When a \<open>paste\<close> event arrives outside
  composition, no clipboard API can be used (neither \<open>e.clipboardData\<close> nor
  \<open>window.clipboardData\<close> is present) and the textarea's selection is not
  collapsed, the listener fires nothing, writes the empty state to the textarea
  (stored state \<open>EMPTY\<close>, empty value) and sets the next command to \<open>Paste\<close>.
  When the browser then puts the pasted text into the textarea, the \<open>input\<close>
  event fires one paste event carrying that text and sets the next command back
  to \<open>Type\<close>, provided the text is not empty and not a lone high surrogate.
  When instead the clipboard can be read and the text read is empty, the
  listener fires nothing and changes nothing but the wrapper's ignore-change
  timestamp.
\<close>

theorem paste_without_clipboard_access:
  "(\<not> canUseTextData win e
      \<and> getSelectionStart (textArea s) \<noteq> getSelectionEnd (textArea s)
      \<and> \<not> isDoingComposition s \<longrightarrow>
      (\<exists>s1. pasteListener env now win e s = Inr (s1, e, [])
          \<and> s1 = (setAndWriteTextAreaState env now EMPTY
                     (s\<lparr>textArea := setIgnoreSelectionChangeTime now (textArea s)\<rparr>))
                   \<lparr>nextCommand := Paste\<rparr>
          \<and> textAreaState s1 = EMPTY \<and> getValue (textArea s1) = [] \<and> nextCommand s1 = Paste
          \<and> (\<forall>s2 now2.
                textAreaState s2 = textAreaState s1 \<and> nextCommand s2 = nextCommand s1
                \<and> isDoingComposition s2 = isDoingComposition s1
                \<and> getValue (textArea s2) \<noteq> []
                \<and> \<not> (int (length (getValue (textArea s2))) = 1
                       \<and> isHighSurrogate (charCodeAt (getValue (textArea s2)) 0))
                \<longrightarrow> snd (inputListener env now2 s2) = [OnPaste (getValue (textArea s2))]
                    \<and> nextCommand (fst (inputListener env now2 s2)) = Type)))
   \<and> (getTextData win e = Inr ([], e1) \<longrightarrow>
        pasteListener env now win e s =
          Inr (s\<lparr>textArea := setIgnoreSelectionChangeTime now (textArea s)\<rparr>, e1, []))"
proof (intro conjI impI)
  assume "\<not> canUseTextData win e
      \<and> getSelectionStart (textArea s) \<noteq> getSelectionEnd (textArea s)
      \<and> \<not> isDoingComposition s"
  then show "\<exists>s1. pasteListener env now win e s = Inr (s1, e, [])
          \<and> s1 = (setAndWriteTextAreaState env now EMPTY
                     (s\<lparr>textArea := setIgnoreSelectionChangeTime now (textArea s)\<rparr>))
                   \<lparr>nextCommand := Paste\<rparr>
          \<and> textAreaState s1 = EMPTY \<and> getValue (textArea s1) = [] \<and> nextCommand s1 = Paste
          \<and> (\<forall>s2 now2.
                textAreaState s2 = textAreaState s1 \<and> nextCommand s2 = nextCommand s1
                \<and> isDoingComposition s2 = isDoingComposition s1
                \<and> getValue (textArea s2) \<noteq> []
                \<and> \<not> (int (length (getValue (textArea s2))) = 1
                       \<and> isHighSurrogate (charCodeAt (getValue (textArea s2)) 0))
                \<longrightarrow> snd (inputListener env now2 s2) = [OnPaste (getValue (textArea s2))]
                    \<and> nextCommand (fst (inputListener env now2 s2)) = Type)"
    using paste_then_input [of win e s env now] by simp
next
  assume r: "getTextData win e = Inr ([], e1)"
  then have "canUseTextData win e"
    by (auto simp: getTextData_def canUseTextData_def split: option.splits)
  with r show "pasteListener env now win e s =
          Inr (s\<lparr>textArea := setIgnoreSelectionChangeTime now (textArea s)\<rparr>, e1, [])"
    by (simp add: pasteListener_def Let_def)
qed

text \<open>
  The claim as stated fails: the clipboard can be read and holds the empty
  string, the selection \<open>0..3\<close> is not collapsed, and the \<open>paste\<close> listener
  neither clears the textarea nor sets the next command to \<open>Paste\<close>.
\<close>

theorem paste_without_clipboard_access_counterexample:
  "getTextData noClipboardWindow eventWithEmptyText =
      Inr ([], eventWithEmptyText\<lparr>defaultPrevented := True\<rparr>)
   \<and> getSelectionStart (textArea exampleInput) \<noteq> getSelectionEnd (textArea exampleInput)
   \<and> pasteListener chromeOnWindows 1000 noClipboardWindow eventWithEmptyText exampleInput =
       Inr (exampleInput\<lparr>textArea := exampleTextArea\<lparr>ignoreSelectionChangeTime := 1000\<rparr>\<rparr>,
            eventWithEmptyText\<lparr>defaultPrevented := True\<rparr>, [])
   \<and> nextCommand (exampleInput\<lparr>textArea := exampleTextArea\<lparr>ignoreSelectionChangeTime := 1000\<rparr>\<rparr>) = Type
   \<and> getValue (textArea (exampleInput\<lparr>textArea := exampleTextArea\<lparr>ignoreSelectionChangeTime := 1000\<rparr>\<rparr>))
       = [0x61, 0x62, 0x63]"
  by (simp add: fixtures wrapper_defs pasteListener_def canUseTextData_def
      getTextData_def getData_def preventDefault_def Let_def)

text \<open>
  Without any clipboard API the \<open>paste\<close> event at time 1000 leaves the
  controller waiting for the paste; the \<open>input\<close> event that follows the
  browser's insertion of \<open>"pq"\<close> fires the paste event.
\<close>

theorem paste_without_clipboard_access_witness:
  "\<not> canUseTextData noClipboardWindow eventWithoutClipboard
   \<and> getSelectionStart (textArea exampleInput) \<noteq> getSelectionEnd (textArea exampleInput)
   \<and> pasteListener chromeOnWindows 1000 noClipboardWindow eventWithoutClipboard exampleInput =
        Inr (examplePastePending, eventWithoutClipboard, [])
   \<and> getValue (textArea examplePasted) = [0x70, 0x71]
   \<and> snd (inputListener chromeOnWindows 1020 examplePasted) = [OnPaste [0x70, 0x71]]
   \<and> nextCommand (fst (inputListener chromeOnWindows 1020 examplePasted)) = Type"
proof -
  have h1: "\<not> canUseTextData noClipboardWindow eventWithoutClipboard"
    by (simp add: canUseTextData_def fixtures)
  have h2: "getSelectionStart (textArea exampleInput) \<noteq> getSelectionEnd (textArea exampleInput)"
    by (simp add: fixtures wrapper_defs)
  have h3: "\<not> isDoingComposition exampleInput"
    by (simp add: fixtures)
  have s1: "(setAndWriteTextAreaState chromeOnWindows 1000 EMPTY
               (exampleInput\<lparr>textArea := setIgnoreSelectionChangeTime 1000 (textArea exampleInput)\<rparr>))
             \<lparr>nextCommand := Paste\<rparr> = examplePastePending"
    by (simp add: fixtures wrapper_defs state_defs setAndWriteTextAreaState_def Let_def)
  have s2: "textAreaState examplePasted = textAreaState examplePastePending
     \<and> nextCommand examplePasted = nextCommand examplePastePending
     \<and> isDoingComposition examplePasted = isDoingComposition examplePastePending
     \<and> getValue (textArea examplePasted) \<noteq> []
     \<and> \<not> (int (length (getValue (textArea examplePasted))) = 1
            \<and> isHighSurrogate (charCodeAt (getValue (textArea examplePasted)) 0))"
    by (simp add: examplePasted_def examplePastePending_def wrapper_defs)
  have v: "getValue (textArea examplePasted) = [0x70, 0x71]"
    by (simp add: examplePasted_def examplePastePending_def wrapper_defs)
  from paste_without_clipboard_access [where win=noClipboardWindow and e=eventWithoutClipboard
      and s=exampleInput and env=chromeOnWindows and now=1000] s1 s2 v h1 h2 h3
  show ?thesis by auto
qed

end
